theory Spec2Isabelle
  imports Main "HOL-Library.Sublist"
begin

section \<open>Python values, dictionaries and exceptions\<close>

text \<open>
  The two scripts handle records decoded from JSON. A field of such a record is a Python
  scalar: \<open>None\<close>, a boolean, a number or a string. Numbers are modelled as Python's
  unbounded integers. A record (a Python \<open>dict\<close>) is an association list read with
  \<open>map_of\<close>, so a key that is missing and a key that holds \<open>None\<close> are different
  records, as they are for \<open>dict.get\<close>.
\<close>

datatype pyval = PNone | PBool bool | PInt int | PStr string

type_synonym row = "(string \<times> pyval) list"

text \<open>
  Exceptions carry the text that \<open>str(e)\<close> returns. \<open>LibraryError\<close> stands for any
  exception derived from \<open>Exception\<close> that the client library or the remote service
  raises (authentication failure, network failure, malformed query).
\<close>

datatype exc =
    ImportError string
  | ValueError string
  | TypeError string
  | KeyError string
  | LibraryError string

fun str_exc :: "exc \<Rightarrow> string" where
  "str_exc (ImportError m) = m"
| "str_exc (ValueError m) = m"
| "str_exc (TypeError m) = m"
| "str_exc (KeyError m) = m"
| "str_exc (LibraryError m) = m"

fun is_ImportError :: "exc \<Rightarrow> bool" where
  "is_ImportError (ImportError m) = True"
| "is_ImportError e = False"

text \<open>Truth value of a Python object, as \<open>if x\<close> and \<open>x if c else y\<close> test it.\<close>

fun truthy :: "pyval \<Rightarrow> bool" where
  "truthy PNone = False"
| "truthy (PBool b) = b"
| "truthy (PInt n) = (n \<noteq> 0)"
| "truthy (PStr s) = (s \<noteq> [])"

fun type_name :: "pyval \<Rightarrow> string" where
  "type_name PNone = ''NoneType''"
| "type_name (PBool b) = ''bool''"
| "type_name (PInt n) = ''int''"
| "type_name (PStr s) = ''str''"

text \<open>\<open>bool\<close> is a subclass of \<open>int\<close>: \<open>True\<close> counts as 1 in arithmetic.\<close>

fun as_int :: "pyval \<Rightarrow> int option" where
  "as_int (PInt n) = Some n"
| "as_int (PBool b) = Some (if b then 1 else 0)"
| "as_int v = None"

definition quoted :: "string \<Rightarrow> string" where
  "quoted s = [CHR 0x27] @ s @ [CHR 0x27]"

text \<open>The binary \<open>-\<close>: defined on numbers, a \<open>TypeError\<close> on anything else.\<close>

definition py_sub :: "pyval \<Rightarrow> pyval \<Rightarrow> exc + pyval" where
  "py_sub a b =
     (case (as_int a, as_int b) of
        (Some x, Some y) \<Rightarrow> Inr (PInt (x - y))
      | _ \<Rightarrow> Inl (TypeError (''unsupported operand type(s) for -: '' @
                 quoted (type_name a) @ '' and '' @ quoted (type_name b))))"

text \<open>\<open>d.get(k, default)\<close> and \<open>d[k]\<close>.\<close>

definition dict_get :: "row \<Rightarrow> string \<Rightarrow> pyval \<Rightarrow> pyval" where
  "dict_get d k dflt = (case map_of d k of None \<Rightarrow> dflt | Some v \<Rightarrow> v)"

definition dict_item :: "row \<Rightarrow> string \<Rightarrow> exc + pyval" where
  "dict_item d k = (case map_of d k of None \<Rightarrow> Inl (KeyError (quoted k)) | Some v \<Rightarrow> Inr v)"

text \<open>Decimal digits of a natural number, and \<open>str(x)\<close> as an f-string inserts it.\<close>

fun dec :: "nat \<Rightarrow> string" where
  "dec n = (if n < 10 then [''0123456789'' ! n]
            else dec (n div 10) @ [''0123456789'' ! (n mod 10)])"

fun py_str :: "pyval \<Rightarrow> string" where
  "py_str PNone = ''None''"
| "py_str (PBool b) = (if b then ''True'' else ''False'')"
| "py_str (PInt n) = (if n < 0 then ''-'' @ dec (nat (- n)) else dec (nat n))"
| "py_str (PStr s) = s"

section \<open>String operations of the standard library\<close>

text \<open>
  \<open>sub in s\<close> is \<^const>\<open>sublist\<close> \<open>sub s\<close>: \<open>sub\<close> occurs in \<open>s\<close> as a contiguous
  run of characters.
\<close>

definition contains :: "string \<Rightarrow> string \<Rightarrow> bool" where
  "contains s sub = sublist sub s"

text \<open>
  \<open>s.replace(old, new)\<close>: every occurrence of \<open>old\<close>, found from the left and not
  overlapping, becomes \<open>new\<close>.
\<close>

fun replace :: "string \<Rightarrow> string \<Rightarrow> string \<Rightarrow> string" where
  "replace old new [] = (if old = [] then new else [])"
| "replace old new (c # cs) =
     (if old = [] then new @ c # replace old new cs
      else if prefix old (c # cs) then new @ replace old new (drop (length old) (c # cs))
      else c # replace old new cs)"

text \<open>\<open>s.rstrip(chars)\<close> and \<open>s.lstrip(chars)\<close>.\<close>

definition rstrip :: "string \<Rightarrow> string \<Rightarrow> string" where
  "rstrip chars s = rev (dropWhile (\<lambda>c. c \<in> set chars) (rev s))"

definition lstrip :: "string \<Rightarrow> string \<Rightarrow> string" where
  "lstrip chars s = dropWhile (\<lambda>c. c \<in> set chars) s"

section \<open>The explorer's derived value\<close>

definition TOTAL :: string where
  "TOTAL = ''GW_Volunteers__Total_Volunteers__c''"

definition STILL_NEEDED :: string where
  "STILL_NEEDED = ''GW_Volunteers__Number_of_Volunteers_Still_Needed__c''"

definition START :: string where
  "START = ''GW_Volunteers__Start_Date_Time__c''"

definition DURATION :: string where
  "DURATION = ''GW_Volunteers__Duration__c''"

definition JOB_REF :: string where
  "JOB_REF = ''GW_Volunteers__Volunteer_Job__c''"

text \<open>
  Lines 81 to 83 of \<open>explore_sf_fields.py\<close>:
  \<^verbatim>\<open>
  total_spots = shift.get('GW_Volunteers__Total_Volunteers__c', 1)
  still_needed = shift.get('GW_Volunteers__Number_of_Volunteers_Still_Needed__c', 0)
  filled = total_spots - still_needed if total_spots else 0
  \<close>
\<close>

definition total_spots :: "row \<Rightarrow> pyval" where
  "total_spots shift = dict_get shift TOTAL (PInt 1)"

definition still_needed :: "row \<Rightarrow> pyval" where
  "still_needed shift = dict_get shift STILL_NEEDED (PInt 0)"

definition filled :: "row \<Rightarrow> exc + pyval" where
  "filled shift =
     (if truthy (total_spots shift) then py_sub (total_spots shift) (still_needed shift)
      else Inr (PInt 0))"

section \<open>The URL parser of the standard library\<close>

text \<open>
  \<open>urllib.parse.urlparse(url).netloc\<close> is not code of this repository. Its splitting of
  a URL is transcribed here from CPython's \<open>urlsplit\<close>: leading control characters and
  spaces are stripped, tabs and line breaks are removed, a leading scheme is cut off at
  the first colon when the text before it is a letter followed by scheme characters, and
  a network location is recognised only when what remains starts with \<open>//\<close>; it then
  runs up to the first \<open>/\<close>, \<open>?\<close> or \<open>#\<close>.

  \<open>urlsplit\<close> also validates the network location it found (an unbalanced or ill-formed
  bracketed IPv6 literal, characters that normalise to URL delimiters) and raises
  \<open>ValueError\<close> when that fails. The validation is the parameter \<open>chk\<close>: \<open>chk netloc\<close>
  is the message of the \<open>ValueError\<close>, or \<open>None\<close> when the location is accepted. An
  empty location is never validated.
\<close>

definition scheme_chars :: string where
  "scheme_chars = ''abcdefghijklmnopqrstuvwxyzABCDEFGHIJKLMNOPQRSTUVWXYZ0123456789+-.''"

definition ascii_letters :: string where
  "ascii_letters = ''abcdefghijklmnopqrstuvwxyzABCDEFGHIJKLMNOPQRSTUVWXYZ''"

definition WHATWG_C0_CONTROL_OR_SPACE :: string where
  "WHATWG_C0_CONTROL_OR_SPACE = map char_of [0..<33]"

definition UNSAFE_URL_BYTES_TO_REMOVE :: string where
  "UNSAFE_URL_BYTES_TO_REMOVE = [CHR 0x09, CHR 0x0D, CHR 0x0A]"

definition clean_url :: "string \<Rightarrow> string" where
  "clean_url url =
     filter (\<lambda>c. c \<notin> set UNSAFE_URL_BYTES_TO_REMOVE) (lstrip WHATWG_C0_CONTROL_OR_SPACE url)"

text \<open>
  \<^verbatim>\<open>
  i = url.find(':')
  if i > 0 and url[0].isascii() and url[0].isalpha():
      for c in url[:i]:
          if c not in scheme_chars: break
      else:
          scheme, url = url[:i].lower(), url[i+1:]
  \<close>
  Only the rest of the URL matters for the network location.
\<close>

definition drop_scheme :: "string \<Rightarrow> string" where
  "drop_scheme url =
     (let s = takeWhile (\<lambda>c. c \<noteq> CHR '':'') url
      in if CHR '':'' \<in> set url \<and> s \<noteq> [] \<and> hd url \<in> set ascii_letters
            \<and> list_all (\<lambda>c. c \<in> set scheme_chars) s
         then drop (length s + 1) url
         else url)"

definition splitnetloc :: "string \<Rightarrow> string" where
  "splitnetloc url = takeWhile (\<lambda>c. c \<notin> set ''/?#'') (drop 2 url)"

definition urlparse_netloc :: "(string \<Rightarrow> string option) \<Rightarrow> string \<Rightarrow> exc + string" where
  "urlparse_netloc chk url0 =
     (let url = drop_scheme (clean_url url0)
      in if take 2 url = ''//''
         then (let netloc = splitnetloc url
               in if netloc = [] then Inr []
                  else (case chk netloc of
                          Some m \<Rightarrow> Inl (ValueError m)
                        | None \<Rightarrow> Inr netloc))
         else Inr [])"

section \<open>The client library and the remote service\<close>

text \<open>
  The keyword arguments of the \<open>Salesforce(...)\<close> constructor that the scripts use. An
  argument that a call does not pass is \<open>None\<close>.
\<close>

record creds =
  username :: string
  password :: string
  security_token :: string

record kwargs = creds +
  instance_url :: "string option"
  domain :: "string option"

text \<open>
  A query of the service's query language, with the clauses the scripts use:
  a projection, an object, conjoined conditions \<open>field = 'literal'\<close> and
  \<open>field != null\<close>, an optional \<open>ORDER BY field DESC\<close> and a \<open>LIMIT\<close>.
\<close>

record soql =
  select_fields :: "string list"
  from_object :: string
  where_eq :: "(string \<times> string) list"
  where_not_null :: "string list"
  order_by_desc :: "string option"
  limit :: nat

text \<open>
  Everything outside the scripts is the environment of a run:
  \<^item> \<open>import_error\<close>: the message of the \<open>ImportError\<close> that importing the client
    library raises, \<open>None\<close> when the library is installed;
  \<^item> \<open>netloc_error\<close>: the URL parser's validation (see above);
  \<^item> \<open>login\<close>: the constructor, which raises or returns a session, of which the
    scripts read the attribute \<open>sf_instance\<close>;
  \<^item> \<open>query_error\<close>: the message of the exception a query raises, if it does;
  \<^item> \<open>tables\<close>: the records the service stores for each object, every field present
    and a null field holding \<open>None\<close>;
  \<^item> \<open>order_key\<close>: the service's ordering of field values;
  \<^item> \<open>describe_fields\<close>: the value of \<open>describe()['fields']\<close> for each object, or
    the message of the exception raised.
\<close>

record env =
  import_error :: "string option"
  netloc_error :: "string \<Rightarrow> string option"
  login :: "kwargs \<Rightarrow> string + string"
  query_error :: "soql \<Rightarrow> string option"
  tables :: "string \<Rightarrow> row list"
  order_key :: "pyval \<Rightarrow> int"
  describe_fields :: "string \<Rightarrow> string + row list"

text \<open>What the service answers to a query: filter, order, cut, project.\<close>

definition matches :: "soql \<Rightarrow> row \<Rightarrow> bool" where
  "matches q r =
     (list_all (\<lambda>(f, lit). map_of r f = Some (PStr lit)) (where_eq q) \<and>
      list_all (\<lambda>f. dict_get r f PNone \<noteq> PNone) (where_not_null q))"

definition ordered :: "(pyval \<Rightarrow> int) \<Rightarrow> soql \<Rightarrow> row list \<Rightarrow> row list" where
  "ordered key q rs =
     (case order_by_desc q of
        None \<Rightarrow> rs
      | Some f \<Rightarrow> rev (sort_key (\<lambda>r. key (dict_get r f PNone)) rs))"

definition project :: "string list \<Rightarrow> row \<Rightarrow> row" where
  "project fs r = map (\<lambda>f. (f, dict_get r f PNone)) fs"

definition records :: "env \<Rightarrow> soql \<Rightarrow> row list" where
  "records e q =
     map (project (select_fields q))
       (take (limit q) (ordered (order_key e) q (filter (matches q) (tables e (from_object q)))))"

definition query :: "env \<Rightarrow> soql \<Rightarrow> exc + row list" where
  "query e q =
     (case query_error e q of
        Some m \<Rightarrow> Inl (LibraryError m)
      | None \<Rightarrow> Inr (records e q))"

section \<open>Output of a run\<close>

text \<open>
  A printed line is kept with its parts instead of the formatted text: the fixed text, or
  the label and the values an f-string inserts. \<open>Json\<close> is a document printed with
  \<open>json.dumps\<close>. A run ends normally or with an exception that no handler caught.
\<close>

datatype json = JNull | JBool bool | JInt int | JStr string | JObject "(string \<times> json) list"

datatype line =
    Text string
  | Labelled string pyval
  | Count string nat
  | FieldInfo pyval pyval pyval
  | ShiftLine pyval pyval pyval pyval
  | UsingDomain string
  | ErrorLine string
  | Json json

record outcome =
  stdout :: "line list"
  unhandled :: "exc option"

text \<open>
  A block of statements prints lines and may raise: the lines printed so far, and the
  exception if one was raised.
\<close>

type_synonym run = "line list \<times> exc option"

definition ok :: "line list \<Rightarrow> run" where
  "ok out = (out, None)"

definition raise :: "exc \<Rightarrow> run" where
  "raise x = ([], Some x)"

definition seq :: "run \<Rightarrow> run \<Rightarrow> run" where
  "seq a b = (case snd a of Some x \<Rightarrow> a | None \<Rightarrow> (fst a @ fst b, snd b))"

fun for_each :: "('a \<Rightarrow> run) \<Rightarrow> 'a list \<Rightarrow> run" where
  "for_each body [] = ok []"
| "for_each body (x # xs) = seq (body x) (for_each body xs)"

fun to_json :: "pyval \<Rightarrow> json" where
  "to_json PNone = JNull"
| "to_json (PBool b) = JBool b"
| "to_json (PInt n) = JInt n"
| "to_json (PStr s) = JStr s"

definition row_to_json :: "row \<Rightarrow> json" where
  "row_to_json r = JObject (map (\<lambda>(k, v). (k, to_json v)) r)"

section \<open>The connection bootstrapper: test_sf_connection.py\<close>

definition script_domain :: string where
  "script_domain = ''https://wmm.lightning.force.com/''"

text \<open>
  Lines 29 to 31:
  \<^verbatim>\<open>
  if 'http' in domain:
      domain = urlparse(domain).netloc
  domain = domain.replace('https://', '').replace('http://', '').rstrip('/')
  \<close>
\<close>

definition clean_domain :: "(string \<Rightarrow> string option) \<Rightarrow> string \<Rightarrow> exc + string" where
  "clean_domain chk raw =
     (case (if contains raw ''http'' then urlparse_netloc chk raw else Inr raw) of
        Inl x \<Rightarrow> Inl x
      | Inr d \<Rightarrow> Inr (rstrip ''/'' (replace ''http://'' [] (replace ''https://'' [] d))))"

text \<open>Lines 35 to 50: the arguments of the one constructor call that is made.\<close>

definition connect_kwargs :: "creds \<Rightarrow> string \<Rightarrow> kwargs" where
  "connect_kwargs c d =
     (if contains d ''lightning.force.com''
      then \<lparr>username = username c, password = password c,
            security_token = security_token c,
            instance_url = Some (''https://'' @ d), domain = None\<rparr>
      else \<lparr>username = username c, password = password c,
            security_token = security_token c,
            instance_url = None, domain = Some d\<rparr>)"

text \<open>
  Line 53:
  \<^verbatim>\<open>SELECT Id, Name, Email FROM User WHERE Username = '{username}' LIMIT 1\<close>
\<close>

definition user_query :: "string \<Rightarrow> soql" where
  "user_query u =
     \<lparr>select_fields = [''Id'', ''Name'', ''Email''], from_object = ''User'',
      where_eq = [(''Username'', u)], where_not_null = [],
      order_by_desc = None, limit = 1\<rparr>"

text \<open>Lines 55 to 60, and the documents of the two handlers (lines 64 to 73).\<close>

definition result :: "row list \<Rightarrow> string \<Rightarrow> json" where
  "result user_info sf_instance =
     JObject
       [(''success'', JBool True),
        (''message'', JStr ''Successfully connected to Salesforce''),
        (''userInfo'', (case user_info of [] \<Rightarrow> JNull | r # rs \<Rightarrow> row_to_json r)),
        (''organizationId'', JStr sf_instance)]"

definition failure :: "string \<Rightarrow> json" where
  "failure msg = JObject [(''success'', JBool False), (''message'', JStr msg)]"

definition handler :: "exc \<Rightarrow> json" where
  "handler x =
     (if is_ImportError x then failure (''simple-salesforce not installed: '' @ str_exc x)
      else failure (''Connection failed: '' @ str_exc x))"

text \<open>The body of the \<open>try\<close> statement, lines 20 to 62; the import is its first statement.\<close>

definition bootstrap_body :: "env \<Rightarrow> creds \<Rightarrow> string \<Rightarrow> run" where
  "bootstrap_body e c raw =
     (case import_error e of
        Some m \<Rightarrow> raise (ImportError m)
      | None \<Rightarrow>
         (case clean_domain (netloc_error e) raw of
            Inl x \<Rightarrow> raise x
          | Inr d \<Rightarrow>
             seq (ok [UsingDomain d])
               (case login e (connect_kwargs c d) of
                  Inl m \<Rightarrow> raise (LibraryError m)
                | Inr sf_instance \<Rightarrow>
                   (case query e (user_query (username c)) of
                      Inl x \<Rightarrow> raise x
                    | Inr user_info \<Rightarrow> ok [Json (result user_info sf_instance)]))))"

definition test_sf_connection :: "env \<Rightarrow> creds \<Rightarrow> string \<Rightarrow> outcome" where
  "test_sf_connection e c raw =
     (case bootstrap_body e c raw of
        (out, None) \<Rightarrow> \<lparr>stdout = out, unhandled = None\<rparr>
      | (out, Some x) \<Rightarrow> \<lparr>stdout = out @ [Json (handler x)], unhandled = None\<rparr>)"

section \<open>The explorer: explore_sf_fields.py\<close>

definition JOB_OBJECT :: string where
  "JOB_OBJECT = ''GW_Volunteers__Volunteer_Job__c''"

definition SHIFT_OBJECT :: string where
  "SHIFT_OBJECT = ''GW_Volunteers__Volunteer_Shift__c''"

text \<open>Lines 12 to 17: the raw domain string is the instance URL, whatever it is.\<close>

definition explorer_kwargs :: "creds \<Rightarrow> string \<Rightarrow> kwargs" where
  "explorer_kwargs c raw =
     \<lparr>username = username c, password = password c,
      security_token = security_token c,
      instance_url = Some raw, domain = None\<rparr>"

text \<open>The allow-lists of lines 25 to 28 and 35 to 39.\<close>

definition job_field_names :: "string list" where
  "job_field_names =
     [''Id'', ''Name'', ''GW_Volunteers__Description__c'',
      ''GW_Volunteers__Location__c'', ''GW_Volunteers__Campaign__c'',
      ''GW_Volunteers__Skills_Needed__c'', ''GW_Volunteers__Display_on_Website__c'',
      ''GW_Volunteers__Program__c'', ''GW_Volunteers__Status__c'']"

definition shift_field_names :: "string list" where
  "shift_field_names =
     [''Id'', ''Name'', ''GW_Volunteers__Start_Date_Time__c'',
      ''GW_Volunteers__Duration__c'', ''GW_Volunteers__Total_Volunteers__c'',
      ''GW_Volunteers__Number_of_Volunteers_Still_Needed__c'',
      ''GW_Volunteers__Description__c'', ''GW_Volunteers__System_Note__c'',
      ''GW_Volunteers__Volunteer_Job__c'', ''GW_Volunteers__Status__c'']"

text \<open>
  \<^verbatim>\<open>
  for field in desc['fields']:
      if field['name'] in [...]:
          print(f"{field['name']}: {field['label']} ({field['type']})")
  \<close>
\<close>

definition print_field :: "string list \<Rightarrow> row \<Rightarrow> run" where
  "print_field names field =
     (case dict_item field ''name'' of
        Inl x \<Rightarrow> raise x
      | Inr n \<Rightarrow>
         if n \<in> set (map PStr names)
         then (case dict_item field ''label'' of
                 Inl x \<Rightarrow> raise x
               | Inr l \<Rightarrow>
                  (case dict_item field ''type'' of
                     Inl x \<Rightarrow> raise x
                   | Inr t \<Rightarrow> ok [FieldInfo n l t]))
         else ok [])"

definition print_fields :: "env \<Rightarrow> string \<Rightarrow> string list \<Rightarrow> run" where
  "print_fields e obj names =
     (case describe_fields e obj of
        Inl m \<Rightarrow> raise (LibraryError m)
      | Inr field_list \<Rightarrow> for_each (print_field names) field_list)"

text \<open>
  Lines 44 to 50:
  \<^verbatim>\<open>
  SELECT Id, Name, GW_Volunteers__Description__c,
         GW_Volunteers__Location__c, GW_Volunteers__Campaign__c,
         GW_Volunteers__Skills_Needed__c, GW_Volunteers__Display_on_Website__c
  FROM GW_Volunteers__Volunteer_Job__c
  LIMIT 5
  \<close>
\<close>

definition jobs_query :: soql where
  "jobs_query =
     \<lparr>select_fields =
        [''Id'', ''Name'', ''GW_Volunteers__Description__c'',
         ''GW_Volunteers__Location__c'', ''GW_Volunteers__Campaign__c'',
         ''GW_Volunteers__Skills_Needed__c'', ''GW_Volunteers__Display_on_Website__c''],
      from_object = JOB_OBJECT,
      where_eq = [], where_not_null = [],
      order_by_desc = None, limit = 5\<rparr>"

text \<open>
  Lines 65 to 75:
  \<^verbatim>\<open>
  SELECT Id, Name, GW_Volunteers__Start_Date_Time__c,
         GW_Volunteers__Duration__c, GW_Volunteers__Total_Volunteers__c,
         GW_Volunteers__Number_of_Volunteers_Still_Needed__c,
         GW_Volunteers__Description__c
  FROM GW_Volunteers__Volunteer_Shift__c
  WHERE GW_Volunteers__Volunteer_Job__c = '{job_id}'
  AND GW_Volunteers__Start_Date_Time__c != null
  ORDER BY GW_Volunteers__Start_Date_Time__c DESC
  LIMIT 3
  \<close>
\<close>

definition shifts_query :: "string \<Rightarrow> soql" where
  "shifts_query job_id =
     \<lparr>select_fields =
        [''Id'', ''Name'', START, DURATION, TOTAL, STILL_NEEDED,
         ''GW_Volunteers__Description__c''],
      from_object = SHIFT_OBJECT,
      where_eq = [(JOB_REF, job_id)], where_not_null = [START],
      order_by_desc = Some START, limit = 3\<rparr>"

text \<open>Lines 78 to 85: one line for each shift.\<close>

definition print_shift :: "row \<Rightarrow> run" where
  "print_shift shift =
     (let start_time = dict_get shift START PNone;
          duration = dict_get shift DURATION (PInt 1)
      in case filled shift of
           Inl x \<Rightarrow> raise x
         | Inr f \<Rightarrow> ok [ShiftLine start_time duration f (total_spots shift)])"

text \<open>Lines 55 to 85: one block for each job.\<close>

definition print_job :: "env \<Rightarrow> row \<Rightarrow> run" where
  "print_job e job =
     (case dict_item job ''Name'' of
        Inl x \<Rightarrow> raise x
      | Inr name \<Rightarrow>
         seq (ok [Labelled ''Job'' name])
           (case dict_item job ''Id'' of
              Inl x \<Rightarrow> raise x
            | Inr job_id \<Rightarrow>
               seq (ok [Labelled ''ID'' job_id,
                        Labelled ''Description''
                          (dict_get job ''GW_Volunteers__Description__c'' (PStr ''N/A'')),
                        Labelled ''Location''
                          (dict_get job ''GW_Volunteers__Location__c'' (PStr ''N/A'')),
                        Labelled ''Campaign''
                          (dict_get job ''GW_Volunteers__Campaign__c'' (PStr ''N/A'')),
                        Labelled ''Skills Needed''
                          (dict_get job ''GW_Volunteers__Skills_Needed__c'' (PStr ''N/A'')),
                        Labelled ''Display on Website''
                          (dict_get job ''GW_Volunteers__Display_on_Website__c'' (PStr ''N/A''))])
                 (case query e (shifts_query (py_str job_id)) of
                    Inl x \<Rightarrow> raise x
                  | Inr shifts \<Rightarrow>
                     seq (ok [Count ''Recent Shifts'' (length shifts)])
                       (for_each print_shift shifts))))"

text \<open>The body of the \<open>try\<close> statement, lines 11 to 85.\<close>

definition explore_body :: "env \<Rightarrow> creds \<Rightarrow> string \<Rightarrow> run" where
  "explore_body e c raw =
     (case login e (explorer_kwargs c raw) of
        Inl m \<Rightarrow> raise (LibraryError m)
      | Inr sf_instance \<Rightarrow>
         seq (ok [Text ''Connected to Salesforce!'', Text ''=== VOLUNTEER JOB FIELDS ===''])
        (seq (print_fields e JOB_OBJECT job_field_names)
        (seq (ok [Text ''=== VOLUNTEER SHIFT FIELDS ===''])
        (seq (print_fields e SHIFT_OBJECT shift_field_names)
        (seq (ok [Text ''=== SAMPLE VOLUNTEER JOBS ===''])
           (case query e jobs_query of
              Inl x \<Rightarrow> raise x
            | Inr jobs \<Rightarrow>
               seq (ok [Count ''Found total jobs'' (length jobs)])
                 (for_each (print_job e) jobs)))))))"

text \<open>
  The whole script. The import of line 2 stands before the \<open>try\<close> statement: an
  exception it raises reaches no handler. The handler of line 87 prints one line.
\<close>

definition explore_sf_fields :: "env \<Rightarrow> creds \<Rightarrow> string \<Rightarrow> outcome" where
  "explore_sf_fields e c raw =
     (case import_error e of
        Some m \<Rightarrow> \<lparr>stdout = [], unhandled = Some (ImportError m)\<rparr>
      | None \<Rightarrow>
         (case explore_body e c raw of
            (out, None) \<Rightarrow> \<lparr>stdout = out, unhandled = None\<rparr>
          | (out, Some x) \<Rightarrow> \<lparr>stdout = out @ [ErrorLine (str_exc x)], unhandled = None\<rparr>))"

section \<open>Sample environments\<close>

text \<open>
  Concrete environments and records, on which the theorems below are instantiated.
  Timestamps are the ISO 8601 strings the service returns; \<open>sample_key\<close> orders strings
  of one length as the dictionary does, which for timestamps is the order in time.
\<close>

definition accept_all :: "string \<Rightarrow> string option" where
  "accept_all netloc = None"

definition sample_creds :: creds where
  "sample_creds = \<lparr>username = ''user@example.com'', password = ''secret'',
                    security_token = ''token''\<rparr>"

fun sample_key :: "pyval \<Rightarrow> int" where
  "sample_key (PStr s) = foldl (\<lambda>a c. a * 256 + int (of_char c)) 0 s"
| "sample_key (PInt n) = n"
| "sample_key v = 0"

definition sample_shift :: "string \<Rightarrow> string \<Rightarrow> pyval \<Rightarrow> pyval \<Rightarrow> pyval \<Rightarrow> row" where
  "sample_shift shift_id job_id start capacity needed =
     [(''Id'', PStr shift_id), (''Name'', PStr (''Shift '' @ shift_id)),
      (START, start), (DURATION, PInt 2), (TOTAL, capacity), (STILL_NEEDED, needed),
      (''GW_Volunteers__Description__c'', PNone), (JOB_REF, PStr job_id)]"

definition sample_shifts :: "row list" where
  "sample_shifts =
     [sample_shift ''s1'' ''j1'' (PStr ''2024-03-01T09:00:00.000+0000'') (PInt 10) (PInt 3),
      sample_shift ''s2'' ''j2'' (PStr ''2024-03-02T09:00:00.000+0000'') (PInt 5) (PInt 5),
      sample_shift ''s3'' ''j1'' PNone PNone PNone,
      sample_shift ''s4'' ''j1'' (PStr ''2024-05-01T09:00:00.000+0000'') (PInt 0) (PInt 0),
      sample_shift ''s5'' ''j1'' (PStr ''2024-04-01T09:00:00.000+0000'') PNone PNone,
      sample_shift ''s6'' ''j1'' (PStr ''2024-01-01T09:00:00.000+0000'') (PInt 4) (PInt 1)]"

definition sample_jobs :: "row list" where
  "sample_jobs =
     [[(''Id'', PStr ''j1''), (''Name'', PStr ''Pantry''),
       (''GW_Volunteers__Description__c'', PStr ''Sorting''),
       (''GW_Volunteers__Location__c'', PNone),
       (''GW_Volunteers__Campaign__c'', PStr ''c1''),
       (''GW_Volunteers__Skills_Needed__c'', PNone),
       (''GW_Volunteers__Display_on_Website__c'', PBool True)]]"

definition sample_users :: "row list" where
  "sample_users =
     [[(''Id'', PStr ''u1''), (''Name'', PStr ''Sample User''),
       (''Email'', PStr ''user@example.com''), (''Username'', PStr ''user@example.com'')]]"

definition sample_tables :: "string \<Rightarrow> row list" where
  "sample_tables obj =
     (if obj = SHIFT_OBJECT then sample_shifts
      else if obj = JOB_OBJECT then sample_jobs
      else if obj = ''User'' then sample_users
      else [])"

definition always_logged_in :: "kwargs \<Rightarrow> string + string" where
  "always_logged_in k = Inr ''wmm.my.salesforce.com''"

definition no_query_error :: "soql \<Rightarrow> string option" where
  "no_query_error q = None"

definition no_description :: "string \<Rightarrow> string + row list" where
  "no_description obj = Inr []"

definition sample_env :: env where
  "sample_env =
     \<lparr>import_error = None, netloc_error = accept_all, login = always_logged_in,
      query_error = no_query_error, tables = sample_tables, order_key = sample_key,
      describe_fields = no_description\<rparr>"

definition library_missing :: env where
  "library_missing =
     sample_env\<lparr>import_error := Some (''No module named '' @ quoted ''simple_salesforce'')\<rparr>"

section \<open>Facts about the string operations and the URL parser\<close>

lemma replace_absent:
  "old \<noteq> [] \<Longrightarrow> \<not> sublist old s \<Longrightarrow> replace old new s = s"
proof (induction s)
  case Nil
  then show ?case by simp
next
  case (Cons c cs)
  from Cons.prems have np: "\<not> prefix old (c # cs)" and ns: "\<not> sublist old cs"
    by (simp_all add: sublist_Cons_right)
  with Cons ns show ?case by simp
qed

lemma sublist_has_char: "sublist p s \<Longrightarrow> c \<in> set p \<Longrightarrow> c \<in> set s"
  using set_mono_sublist by blast

lemma no_slash_no_https: "CHR ''/'' \<notin> set s \<Longrightarrow> \<not> sublist ''https://'' s"
  using sublist_has_char [of "''https://''" s "CHR ''/''"] by auto

lemma no_slash_no_http: "CHR ''/'' \<notin> set s \<Longrightarrow> \<not> sublist ''http://'' s"
  using sublist_has_char [of "''http://''" s "CHR ''/''"] by auto

lemma rstrip_absent: "set chars \<inter> set s = {} \<Longrightarrow> rstrip chars s = s"
proof -
  assume a: "set chars \<inter> set s = {}"
  have "dropWhile (\<lambda>c. c \<in> set chars) (rev s) = rev s"
  proof (cases "rev s")
    case Nil
    then show ?thesis by simp
  next
    case (Cons x xs)
    then have "x \<in> set s" by (metis list.set_intros(1) set_rev)
    with a have "x \<notin> set chars" by blast
    with Cons show ?thesis by simp
  qed
  then show ?thesis by (simp add: rstrip_def)
qed

lemma splitnetloc_no_slash: "CHR ''/'' \<notin> set (splitnetloc url)"
proof
  assume "CHR ''/'' \<in> set (splitnetloc url)"
  then have "CHR ''/'' \<notin> set ''/?#''"
    unfolding splitnetloc_def by (rule set_takeWhileD [THEN conjunct2])
  then show False by simp
qed

lemma netloc_cases:
  "urlparse_netloc chk raw = Inr n \<Longrightarrow> n = [] \<or> n = splitnetloc (drop_scheme (clean_url raw))"
  unfolding urlparse_netloc_def Let_def
  by (simp split: if_splits option.splits)

lemma netloc_no_slash: "urlparse_netloc chk raw = Inr n \<Longrightarrow> CHR ''/'' \<notin> set n"
  using netloc_cases [of chk raw n] splitnetloc_no_slash by auto

lemma strip_netloc:
  "CHR ''/'' \<notin> set n \<Longrightarrow> rstrip ''/'' (replace ''http://'' [] (replace ''https://'' [] n)) = n"
  by (simp add: replace_absent rstrip_absent no_slash_no_https no_slash_no_http)

lemma clean_domain_http:
  "contains raw ''http'' \<Longrightarrow> clean_domain chk raw = urlparse_netloc chk raw"
  by (cases "urlparse_netloc chk raw")
     (simp_all add: clean_domain_def netloc_no_slash strip_netloc)

lemma script_domain_url:
  "drop_scheme (clean_url script_domain) = ''//wmm.lightning.force.com/''"
  by code_simp

lemma script_domain_netloc:
  "splitnetloc ''//wmm.lightning.force.com/'' = ''wmm.lightning.force.com''"
  by code_simp

lemma script_domain_http: "contains script_domain ''http''"
  by code_simp

lemma drop_scheme_suffix: "suffix (drop_scheme u) u"
proof (cases "drop_scheme u = u")
  case True
  then show ?thesis by simp
next
  case False
  then have "drop_scheme u = drop (length (takeWhile (\<lambda>c. c \<noteq> CHR '':'') u) + 1) u"
    unfolding drop_scheme_def Let_def by presburger
  then show ?thesis using suffix_drop by metis
qed

lemma no_double_slash:
  assumes "\<not> sublist ''//'' u"
  shows "take 2 (drop_scheme u) \<noteq> ''//''"
proof
  assume t: "take 2 (drop_scheme u) = ''//''"
  have "prefix (take 2 (drop_scheme u)) (drop_scheme u)"
    by (rule take_is_prefix)
  with t have "prefix ''//'' (drop_scheme u)"
    by simp
  then have "sublist ''//'' (drop_scheme u)"
    by (rule prefix_imp_sublist)
  moreover have "sublist (drop_scheme u) u"
    by (rule suffix_imp_sublist) (rule drop_scheme_suffix)
  ultimately have "sublist ''//'' u"
    by (rule sublist_order.order_trans)
  with assms show False by simp
qed

lemma netloc_empty:
  "\<not> contains (clean_url raw) ''//'' \<Longrightarrow> urlparse_netloc chk raw = Inr []"
  using no_double_slash [of "clean_url raw"]
  by (simp add: urlparse_netloc_def Let_def contains_def)

lemma named_domain_empty:
  "connect_kwargs c [] =
     \<lparr>username = username c, password = password c, security_token = security_token c,
      instance_url = None, domain = Some []\<rparr>"
  by (simp add: connect_kwargs_def contains_def)

lemma bare_host_http: "contains ''httpbin.my.salesforce.com'' ''http''"
  by code_simp

lemma bare_host_clean: "\<not> contains (clean_url ''httpbin.my.salesforce.com'') ''//''"
  by code_simp

lemma records_login: "records (e\<lparr>login := other\<rparr>) q = records e q"
  by (simp add: records_def)

lemma query_login: "query (e\<lparr>login := other\<rparr>) q = query e q"
  by (simp add: query_def records_login split: option.splits)

lemma bootstrap_body_login:
  "clean_domain (netloc_error e) raw = Inr d \<Longrightarrow>
   other (connect_kwargs c d) = login e (connect_kwargs c d) \<Longrightarrow>
   bootstrap_body (e\<lparr>login := other\<rparr>) c raw = bootstrap_body e c raw"
  by (simp add: bootstrap_body_def query_login split: option.splits sum.splits)

section \<open>Facts about the runs and the queries\<close>

lemma bootstrap_body_no_library:
  "import_error e = Some m \<Longrightarrow> bootstrap_body e c raw = ([], Some (ImportError m))"
  by (simp add: bootstrap_body_def raise_def)

lemma test_sf_connection_normal: "unhandled (test_sf_connection e c raw) = None"
  by (simp add: test_sf_connection_def split: prod.splits option.splits)



lemma map_of_project:
  "f \<in> set fs \<Longrightarrow> map_of (project fs r) f = Some (dict_get r f PNone)"
  unfolding project_def by (induction fs) auto

lemma dict_get_project:
  "f \<in> set fs \<Longrightarrow> dict_get (project fs r) f dflt = dict_get r f PNone"
  by (simp add: dict_get_def [of "project fs r"] map_of_project)

lemma keys_project: "map fst (project fs r) = fs"
  by (simp add: project_def comp_def)

lemma ordered_set: "set (ordered key q rs) = set rs"
  by (simp add: ordered_def split: option.splits)

lemma ordered_desc:
  "order_by_desc q = Some f \<Longrightarrow>
   sorted_wrt (\<lambda>a b. key (dict_get b f PNone) \<le> key (dict_get a f PNone)) (ordered key q rs)"
proof -
  assume a: "order_by_desc q = Some f"
  let ?k = "\<lambda>r. key (dict_get r f PNone)"
  have "sorted (map ?k (sort_key ?k rs))"
    by (rule sorted_sort_key)
  then have "sorted_wrt (\<lambda>a b. ?k a \<le> ?k b) (sort_key ?k rs)"
    by (simp add: sorted_map)
  then have "sorted_wrt (\<lambda>a b. ?k b \<le> ?k a) (rev (sort_key ?k rs))"
    by (simp add: sorted_wrt_rev)
  with a show ?thesis by (simp add: ordered_def)
qed

lemma START_selected: "START \<in> set (select_fields (shifts_query job_id))"
  by (simp add: shifts_query_def)

lemma matches_shifts_query:
  "matches (shifts_query job_id) r \<longleftrightarrow>
     map_of r JOB_REF = Some (PStr job_id) \<and> dict_get r START PNone \<noteq> PNone"
  by (simp add: matches_def shifts_query_def)

lemma records_shifts_query:
  "records e (shifts_query job_id) =
     map (project (select_fields (shifts_query job_id)))
       (take 3 (ordered (order_key e) (shifts_query job_id)
          (filter (matches (shifts_query job_id)) (tables e SHIFT_OBJECT))))"
  by (simp add: records_def) (simp add: shifts_query_def)

lemma jobs_query_fields:
  "select_fields jobs_query =
     [''Id'', ''Name'', ''GW_Volunteers__Description__c'',
      ''GW_Volunteers__Location__c'', ''GW_Volunteers__Campaign__c'',
      ''GW_Volunteers__Skills_Needed__c'', ''GW_Volunteers__Display_on_Website__c'']"
  by (simp add: jobs_query_def)

section \<open>The derived value \<open>filled\<close>\<close>

text \<open>
  Claim C1, as amended. For every shift record whose total-capacity field is null
  (\<open>None\<close>) or 0, \<open>filled\<close> is 0, whatever the still-needed field holds: it is neither
  negative nor an error. A record in which the total-capacity key is missing gets the
  default total 1 of \<open>shift.get\<close>, and with a still-needed count of 0 its \<open>filled\<close> is 1.
\<close>

theorem filled_total_falsy_or_missing:
  "(map_of shift TOTAL = Some PNone \<or> map_of shift TOTAL = Some (PInt 0)
      \<longrightarrow> filled shift = Inr (PInt 0)) \<and>
   (map_of shift TOTAL = None \<and> map_of shift STILL_NEEDED = Some (PInt 0)
      \<longrightarrow> filled shift = Inr (PInt 1))"
  by (auto simp: filled_def total_spots_def still_needed_def dict_get_def py_sub_def)

theorem filled_total_falsy_or_missing_witness:
  "map_of [(TOTAL, PNone), (STILL_NEEDED, PInt 0)] TOTAL = Some PNone \<and>
   filled [(TOTAL, PNone), (STILL_NEEDED, PInt 0)] = Inr (PInt 0) \<and>
   map_of [(STILL_NEEDED, PInt 0)] TOTAL = None \<and>
   map_of [(STILL_NEEDED, PInt 0)] STILL_NEEDED = Some (PInt 0) \<and>
   filled [(STILL_NEEDED, PInt 0)] = Inr (PInt 1)"
proof -
  have a: "map_of [(TOTAL, PNone), (STILL_NEEDED, PInt 0)] TOTAL = Some PNone"
    by simp
  have b: "map_of [(STILL_NEEDED, PInt 0)] TOTAL = None"
    by (simp add: TOTAL_def STILL_NEEDED_def)
  have c: "map_of [(STILL_NEEDED, PInt 0)] STILL_NEEDED = Some (PInt 0)"
    by simp
  from a b c
    filled_total_falsy_or_missing [of "[(TOTAL, PNone), (STILL_NEEDED, PInt 0)]"]
    filled_total_falsy_or_missing [of "[(STILL_NEEDED, PInt 0)]"]
  show ?thesis by blast
qed

theorem filled_missing_total_counterexample:
  "map_of [(STILL_NEEDED, PInt 0)] TOTAL = None \<and>
   map_of [(STILL_NEEDED, PInt 0)] STILL_NEEDED = Some (PInt 0) \<and>
   filled [(STILL_NEEDED, PInt 0)] = Inr (PInt 1) \<and>
   filled [(STILL_NEEDED, PInt 0)] \<noteq> Inr (PInt 0)"
  by (simp add: filled_def total_spots_def still_needed_def dict_get_def py_sub_def
        TOTAL_def STILL_NEEDED_def)

text \<open>
  Claim C6. For every shift record, the total capacity is the field's value, or 1 when
  the key is missing; the still-needed count is the field's value, or 0 when the key is
  missing; \<open>filled\<close> is the difference of the two when the total is truthy and 0 when
  it is falsy. On numbers the difference is the integer difference, and a total of 10
  with 3 still needed gives 7.
\<close>

theorem filled_is_total_minus_still_needed:
  "total_spots shift = (case map_of shift TOTAL of None \<Rightarrow> PInt 1 | Some v \<Rightarrow> v) \<and>
   still_needed shift = (case map_of shift STILL_NEEDED of None \<Rightarrow> PInt 0 | Some v \<Rightarrow> v) \<and>
   (truthy (total_spots shift)
      \<longrightarrow> filled shift = py_sub (total_spots shift) (still_needed shift)) \<and>
   (\<not> truthy (total_spots shift) \<longrightarrow> filled shift = Inr (PInt 0)) \<and>
   (\<forall>t s. total_spots shift = PInt t \<and> still_needed shift = PInt s
      \<longrightarrow> filled shift = Inr (PInt (if t = 0 then 0 else t - s))) \<and>
   filled [(TOTAL, PInt 10), (STILL_NEEDED, PInt 3)] = Inr (PInt 7)"
  by (simp add: filled_def total_spots_def still_needed_def dict_get_def py_sub_def
        TOTAL_def STILL_NEEDED_def)

theorem filled_is_total_minus_still_needed_witness:
  "truthy (total_spots [(TOTAL, PInt 10), (STILL_NEEDED, PInt 3)]) \<and>
   total_spots [(TOTAL, PInt 10), (STILL_NEEDED, PInt 3)] = PInt 10 \<and>
   still_needed [(TOTAL, PInt 10), (STILL_NEEDED, PInt 3)] = PInt 3 \<and>
   filled [(TOTAL, PInt 10), (STILL_NEEDED, PInt 3)] = Inr (PInt 7) \<and>
   \<not> truthy (total_spots [(TOTAL, PNone)]) \<and>
   filled [(TOTAL, PNone)] = Inr (PInt 0) \<and>
   total_spots [] = PInt 1 \<and> still_needed [] = PInt 0 \<and> filled [] = Inr (PInt 1)"
proof -
  have a: "total_spots [(TOTAL, PInt 10), (STILL_NEEDED, PInt 3)] = PInt 10"
    by (simp add: total_spots_def dict_get_def)
  have b: "still_needed [(TOTAL, PInt 10), (STILL_NEEDED, PInt 3)] = PInt 3"
    by (simp add: still_needed_def dict_get_def TOTAL_def STILL_NEEDED_def)
  have c: "\<not> truthy (total_spots [(TOTAL, PNone)])"
    by (simp add: total_spots_def dict_get_def)
  have d: "total_spots [] = PInt 1" "still_needed [] = PInt 0"
    by (simp_all add: total_spots_def still_needed_def dict_get_def)
  from a have e: "truthy (total_spots [(TOTAL, PInt 10), (STILL_NEEDED, PInt 3)])"
    by simp
  from filled_is_total_minus_still_needed [of "[(TOTAL, PInt 10), (STILL_NEEDED, PInt 3)]"]
  have f: "filled [(TOTAL, PInt 10), (STILL_NEEDED, PInt 3)] = Inr (PInt 7)"
    by blast
  from filled_is_total_minus_still_needed [of "[(TOTAL, PNone)]"] c
  have g: "filled [(TOTAL, PNone)] = Inr (PInt 0)"
    by blast
  from filled_is_total_minus_still_needed [of "[]"] d
  have "filled [] = Inr (PInt (if (1::int) = 0 then 0 else 1 - 0))"
    by blast
  then have h: "filled [] = Inr (PInt 1)"
    by simp
  from a b c d e f g h show ?thesis by blast
qed

section \<open>Normalization of the domain\<close>

text \<open>
  Claim C3, as amended. The condition of the parse is that the input contains the
  substring \<open>http\<close>. For every such input, the normalization is the network location
  of the parsed URL (or the parser's error): the removal of scheme prefixes and of
  trailing slashes that follows is applied to it and leaves it as it is, since a network
  location has no slash. The input \<open>https://wmm.lightning.force.com/\<close> normalizes to
  \<open>wmm.lightning.force.com\<close>.
\<close>

theorem clean_domain_keeps_netloc:
  "(contains raw ''http'' \<longrightarrow> clean_domain chk raw = urlparse_netloc chk raw) \<and>
   (\<forall>n. contains raw ''http'' \<and> urlparse_netloc chk raw = Inr n \<longrightarrow>
      clean_domain chk raw =
        Inr (rstrip ''/'' (replace ''http://'' [] (replace ''https://'' [] n))) \<and>
      rstrip ''/'' (replace ''http://'' [] (replace ''https://'' [] n)) = n) \<and>
   (chk ''wmm.lightning.force.com'' = None \<longrightarrow>
      clean_domain chk ''https://wmm.lightning.force.com/'' = Inr ''wmm.lightning.force.com'')"
proof (intro conjI allI impI)
  assume "contains raw ''http''"
  then show "clean_domain chk raw = urlparse_netloc chk raw"
    by (rule clean_domain_http)
next
  fix n
  assume a: "contains raw ''http'' \<and> urlparse_netloc chk raw = Inr n"
  then show "clean_domain chk raw =
      Inr (rstrip ''/'' (replace ''http://'' [] (replace ''https://'' [] n)))"
    by (simp add: clean_domain_def)
  from a show "rstrip ''/'' (replace ''http://'' [] (replace ''https://'' [] n)) = n"
    using netloc_no_slash strip_netloc by blast
next
  assume a: "chk ''wmm.lightning.force.com'' = None"
  have "urlparse_netloc chk script_domain = Inr ''wmm.lightning.force.com''"
    unfolding urlparse_netloc_def Let_def script_domain_url script_domain_netloc
    using a by simp
  then have "clean_domain chk script_domain = Inr ''wmm.lightning.force.com''"
    using clean_domain_http [OF script_domain_http, of chk] by simp
  then show "clean_domain chk ''https://wmm.lightning.force.com/'' = Inr ''wmm.lightning.force.com''"
    by (simp add: script_domain_def)
qed

theorem clean_domain_keeps_netloc_witness:
  "contains ''http://test.salesforce.com/services?x=1'' ''http'' \<and>
   urlparse_netloc accept_all ''http://test.salesforce.com/services?x=1'' = Inr ''test.salesforce.com'' \<and>
   clean_domain accept_all ''http://test.salesforce.com/services?x=1'' = Inr ''test.salesforce.com'' \<and>
   accept_all ''wmm.lightning.force.com'' = None \<and>
   clean_domain accept_all ''https://wmm.lightning.force.com/'' = Inr ''wmm.lightning.force.com''"
proof -
  have a: "contains ''http://test.salesforce.com/services?x=1'' ''http''"
    by code_simp
  have b: "urlparse_netloc accept_all ''http://test.salesforce.com/services?x=1'' = Inr ''test.salesforce.com''"
    by code_simp
  have c: "accept_all ''wmm.lightning.force.com'' = None"
    by (simp add: accept_all_def)
  from a b c
    clean_domain_keeps_netloc [of "''http://test.salesforce.com/services?x=1''" accept_all]
  show ?thesis by simp
qed

theorem clean_domain_other_scheme_counterexample:
  "urlparse_netloc accept_all ''ftp://example.com/'' = Inr ''example.com'' \<and>
   clean_domain accept_all ''ftp://example.com/'' = Inr ''ftp://example.com''"
  by code_simp

text \<open>
  Claim C10, as amended. For every input that contains \<open>http\<close> and in which the parser
  finds no network location, the normalization is the empty string, which selects the
  named-domain path with an empty domain. The parser finds none whenever no \<open>//\<close>
  occurs in the input once it has removed the control characters, as in the bare host
  \<open>httpbin.my.salesforce.com\<close>.
\<close>

theorem http_without_netloc_gives_empty_domain:
  "(contains raw ''http'' \<and> urlparse_netloc chk raw = Inr [] \<longrightarrow>
      clean_domain chk raw = Inr [] \<and>
      connect_kwargs c [] =
        \<lparr>username = username c, password = password c,
         security_token = security_token c, instance_url = None, domain = Some []\<rparr>) \<and>
   (\<not> contains (clean_url raw) ''//'' \<longrightarrow> urlparse_netloc chk raw = Inr []) \<and>
   clean_domain chk ''httpbin.my.salesforce.com'' = Inr []"
proof (intro conjI impI)
  assume "contains raw ''http'' \<and> urlparse_netloc chk raw = Inr []"
  then show "clean_domain chk raw = Inr []"
    using clean_domain_http [of raw chk] by simp
next
  show "connect_kwargs c [] =
        \<lparr>username = username c, password = password c,
         security_token = security_token c, instance_url = None, domain = Some []\<rparr>"
    by (rule named_domain_empty)
next
  assume "\<not> contains (clean_url raw) ''//''"
  then show "urlparse_netloc chk raw = Inr []"
    by (rule netloc_empty)
next
  show "clean_domain chk ''httpbin.my.salesforce.com'' = Inr []"
    using clean_domain_http [OF bare_host_http, of chk] netloc_empty [OF bare_host_clean, of chk]
    by simp
qed

theorem http_without_netloc_gives_empty_domain_witness:
  "contains ''httpbin.my.salesforce.com'' ''http'' \<and>
   \<not> contains (clean_url ''httpbin.my.salesforce.com'') ''//'' \<and>
   urlparse_netloc accept_all ''httpbin.my.salesforce.com'' = Inr [] \<and>
   clean_domain accept_all ''httpbin.my.salesforce.com'' = Inr [] \<and>
   domain (connect_kwargs sample_creds []) = Some [] \<and>
   instance_url (connect_kwargs sample_creds []) = None"
proof -
  have a: "contains ''httpbin.my.salesforce.com'' ''http''"
    by code_simp
  have b: "\<not> contains (clean_url ''httpbin.my.salesforce.com'') ''//''"
    by code_simp
  from a b
    http_without_netloc_gives_empty_domain
      [of "''httpbin.my.salesforce.com''" accept_all sample_creds]
  show ?thesis by simp
qed

theorem network_path_reference_counterexample:
  "contains ''//example.com/http'' ''http'' \<and>
   CHR '':'' \<notin> set ''//example.com/http'' \<and>
   clean_domain accept_all ''//example.com/http'' = Inr ''example.com''"
  by code_simp

section \<open>Selection of the authentication path\<close>

text \<open>
  Claim C4. For every normalized host, the constructor is called with the instance URL
  \<open>https://\<close> followed by the host (and no domain) when the host contains
  \<open>lightning.force.com\<close>, and with the host as the domain (and no instance URL)
  otherwise. It is the only constructor call of a run: the outcome depends on the
  constructor at these arguments alone.
\<close>

theorem auth_path_selection:
  "(contains d ''lightning.force.com'' \<longrightarrow>
      connect_kwargs c d =
        \<lparr>username = username c, password = password c,
         security_token = security_token c,
         instance_url = Some (''https://'' @ d), domain = None\<rparr>) \<and>
   (\<not> contains d ''lightning.force.com'' \<longrightarrow>
      connect_kwargs c d =
        \<lparr>username = username c, password = password c,
         security_token = security_token c,
         instance_url = None, domain = Some d\<rparr>) \<and>
   (clean_domain (netloc_error e) raw = Inr d \<and>
    other (connect_kwargs c d) = login e (connect_kwargs c d) \<longrightarrow>
      test_sf_connection (e\<lparr>login := other\<rparr>) c raw = test_sf_connection e c raw)"
proof (intro conjI impI)
  assume "contains d ''lightning.force.com''"
  then show "connect_kwargs c d =
        \<lparr>username = username c, password = password c,
         security_token = security_token c,
         instance_url = Some (''https://'' @ d), domain = None\<rparr>"
    by (simp add: connect_kwargs_def)
next
  assume "\<not> contains d ''lightning.force.com''"
  then show "connect_kwargs c d =
        \<lparr>username = username c, password = password c,
         security_token = security_token c,
         instance_url = None, domain = Some d\<rparr>"
    by (simp add: connect_kwargs_def)
next
  assume "clean_domain (netloc_error e) raw = Inr d \<and>
    other (connect_kwargs c d) = login e (connect_kwargs c d)"
  then have "bootstrap_body (e\<lparr>login := other\<rparr>) c raw = bootstrap_body e c raw"
    using bootstrap_body_login by blast
  then show "test_sf_connection (e\<lparr>login := other\<rparr>) c raw = test_sf_connection e c raw"
    by (simp add: test_sf_connection_def)
qed

theorem auth_path_selection_witness:
  "contains ''wmm.lightning.force.com'' ''lightning.force.com'' \<and>
   connect_kwargs sample_creds ''wmm.lightning.force.com'' =
     \<lparr>username = username sample_creds, password = password sample_creds,
      security_token = security_token sample_creds,
      instance_url = Some ''https://wmm.lightning.force.com'', domain = None\<rparr> \<and>
   \<not> contains ''login'' ''lightning.force.com'' \<and>
   connect_kwargs sample_creds ''login'' =
     \<lparr>username = username sample_creds, password = password sample_creds,
      security_token = security_token sample_creds,
      instance_url = None, domain = Some ''login''\<rparr> \<and>
   clean_domain (netloc_error sample_env) ''login'' = Inr ''login'' \<and>
   test_sf_connection (sample_env\<lparr>login := always_logged_in\<rparr>) sample_creds ''login''
     = test_sf_connection sample_env sample_creds ''login''"
proof -
  have a: "contains ''wmm.lightning.force.com'' ''lightning.force.com''"
    by code_simp
  have b: "\<not> contains ''login'' ''lightning.force.com''"
    by code_simp
  have c: "clean_domain (netloc_error sample_env) ''login'' = Inr ''login''"
    by code_simp
  have d: "always_logged_in (connect_kwargs sample_creds ''login'')
             = login sample_env (connect_kwargs sample_creds ''login'')"
    by (simp add: sample_env_def)
  note t1 = auth_path_selection
    [of "''wmm.lightning.force.com''" sample_creds sample_env "''login''" always_logged_in]
  note t2 = auth_path_selection
    [of "''login''" sample_creds sample_env "''login''" always_logged_in]
  from t1 a have e: "connect_kwargs sample_creds ''wmm.lightning.force.com'' =
     \<lparr>username = username sample_creds, password = password sample_creds,
      security_token = security_token sample_creds,
      instance_url = Some (''https://'' @ ''wmm.lightning.force.com''), domain = None\<rparr>"
    by blast
  from t2 b have f: "connect_kwargs sample_creds ''login'' =
     \<lparr>username = username sample_creds, password = password sample_creds,
      security_token = security_token sample_creds,
      instance_url = None, domain = Some ''login''\<rparr>"
    by blast
  from t2 c d have g: "test_sf_connection (sample_env\<lparr>login := always_logged_in\<rparr>) sample_creds ''login''
     = test_sf_connection sample_env sample_creds ''login''"
    by blast
  from e have e': "connect_kwargs sample_creds ''wmm.lightning.force.com'' =
     \<lparr>username = username sample_creds, password = password sample_creds,
      security_token = security_token sample_creds,
      instance_url = Some ''https://wmm.lightning.force.com'', domain = None\<rparr>"
    by simp
  from a b c e' f g show ?thesis by blast
qed

text \<open>
  Claim C9, as amended. The two bootstrap procedures are not equivalent. The explorer
  neither normalizes the domain nor selects a path: it always passes the raw domain
  string as the instance URL. Its constructor call is the bootstrapper's exactly when
  the bootstrapper's normalized host contains \<open>lightning.force.com\<close> and the raw
  string is \<open>https://\<close> followed by that host.
\<close>

theorem explorer_passes_raw_domain:
  "explorer_kwargs c raw =
     \<lparr>username = username c, password = password c,
      security_token = security_token c,
      instance_url = Some raw, domain = None\<rparr> \<and>
   (clean_domain chk raw = Inr d \<longrightarrow>
      (connect_kwargs c d = explorer_kwargs c raw \<longleftrightarrow>
       contains d ''lightning.force.com'' \<and> raw = ''https://'' @ d))"
  by (auto simp: explorer_kwargs_def connect_kwargs_def)

theorem explorer_passes_raw_domain_witness:
  "clean_domain accept_all ''https://wmm.lightning.force.com'' = Inr ''wmm.lightning.force.com'' \<and>
   contains ''wmm.lightning.force.com'' ''lightning.force.com'' \<and>
   connect_kwargs sample_creds ''wmm.lightning.force.com''
     = explorer_kwargs sample_creds ''https://wmm.lightning.force.com''"
proof -
  have a: "clean_domain accept_all ''https://wmm.lightning.force.com'' = Inr ''wmm.lightning.force.com''"
    by code_simp
  have b: "contains ''wmm.lightning.force.com'' ''lightning.force.com''"
    by code_simp
  have c: "''https://wmm.lightning.force.com'' = ''https://'' @ ''wmm.lightning.force.com''"
    by simp
  from a b c
    explorer_passes_raw_domain
      [of sample_creds "''https://wmm.lightning.force.com''" accept_all "''wmm.lightning.force.com''"]
  show ?thesis by blast
qed

theorem bootstrap_differs_counterexample:
  "clean_domain accept_all script_domain = Inr ''wmm.lightning.force.com'' \<and>
   instance_url (connect_kwargs sample_creds ''wmm.lightning.force.com'')
     = Some ''https://wmm.lightning.force.com'' \<and>
   instance_url (explorer_kwargs sample_creds script_domain)
     = Some ''https://wmm.lightning.force.com/'' \<and>
   connect_kwargs sample_creds ''wmm.lightning.force.com''
     \<noteq> explorer_kwargs sample_creds script_domain \<and>
   clean_domain accept_all ''login'' = Inr ''login'' \<and>
   instance_url (connect_kwargs sample_creds ''login'') = None \<and>
   domain (connect_kwargs sample_creds ''login'') = Some ''login'' \<and>
   instance_url (explorer_kwargs sample_creds ''login'') = Some ''login'' \<and>
   domain (explorer_kwargs sample_creds ''login'') = None"
  by code_simp

section \<open>Reports of the bootstrapper\<close>

text \<open>
  Claim C2, as amended. Every run of the bootstrapper ends normally. When the client
  library is absent at import time, the bootstrapper prints one JSON document with
  \<open>success\<close> false and the message \<open>simple-salesforce not installed:\<close> followed by
  the text of the import error, and nothing else.
\<close>

theorem missing_library_reported:
  "unhandled (test_sf_connection e c raw) = None \<and>
   (import_error e = Some m \<longrightarrow>
      test_sf_connection e c raw =
        \<lparr>stdout =
           [Json (JObject [(''success'', JBool False),
                           (''message'', JStr (''simple-salesforce not installed: '' @ m))])],
         unhandled = None\<rparr>)"
  by (simp add: test_sf_connection_normal)
     (simp add: test_sf_connection_def bootstrap_body_no_library handler_def failure_def)

theorem missing_library_reported_witness:
  "import_error library_missing = Some (''No module named '' @ quoted ''simple_salesforce'') \<and>
   test_sf_connection library_missing sample_creds script_domain =
     \<lparr>stdout =
        [Json (JObject [(''success'', JBool False),
                        (''message'', JStr (''simple-salesforce not installed: '' @
                            (''No module named '' @ quoted ''simple_salesforce'')))])],
      unhandled = None\<rparr>"
proof -
  have a: "import_error library_missing = Some (''No module named '' @ quoted ''simple_salesforce'')"
    by (simp add: library_missing_def)
  from a
    missing_library_reported
      [of library_missing sample_creds script_domain
          "''No module named '' @ quoted ''simple_salesforce''"]
  show ?thesis by blast
qed

theorem explorer_import_unhandled_counterexample:
  "import_error library_missing = Some (''No module named '' @ quoted ''simple_salesforce'') \<and>
   stdout (explore_sf_fields library_missing sample_creds script_domain) = [] \<and>
   unhandled (explore_sf_fields library_missing sample_creds script_domain) =
     Some (ImportError (''No module named '' @ quoted ''simple_salesforce''))"
  by (simp add: library_missing_def explore_sf_fields_def)




section \<open>The explorer's queries\<close>

text \<open>
  Claim C5. For every job identifier, the records that the shift query returns are at
  most 3; each has a start timestamp that is not null; each is the projection of a
  stored shift whose parent-job reference is that identifier and whose start timestamp
  is not null; and they are in descending order of start timestamp.
\<close>

theorem shifts_query_result:
  "query e (shifts_query job_id) = Inr shifts \<longrightarrow>
     length shifts \<le> 3 \<and>
     (\<forall>s\<in>set shifts. dict_get s START PNone \<noteq> PNone) \<and>
     (\<forall>s\<in>set shifts. \<exists>r\<in>set (tables e SHIFT_OBJECT).
         s = project (select_fields (shifts_query job_id)) r \<and>
         map_of r JOB_REF = Some (PStr job_id) \<and>
         dict_get r START PNone \<noteq> PNone) \<and>
     sorted_wrt (\<lambda>a b. order_key e (dict_get b START PNone)
                     \<le> order_key e (dict_get a START PNone)) shifts"
proof
  assume q: "query e (shifts_query job_id) = Inr shifts"
  let ?q = "shifts_query job_id"
  let ?fs = "select_fields ?q"
  let ?sel = "take 3 (ordered (order_key e) ?q (filter (matches ?q) (tables e SHIFT_OBJECT)))"
  from q have "shifts = records e ?q"
    by (simp add: query_def split: option.splits)
  then have sh: "shifts = map (project ?fs) ?sel"
    by (simp only: records_shifts_query)
  have len: "length shifts \<le> 3"
    by (simp add: sh)
  have sub: "set ?sel \<subseteq> set (filter (matches ?q) (tables e SHIFT_OBJECT))"
    using set_take_subset [of 3] ordered_set by fastforce
  have stored: "\<forall>s\<in>set shifts. \<exists>r\<in>set (tables e SHIFT_OBJECT).
         s = project ?fs r \<and> map_of r JOB_REF = Some (PStr job_id) \<and>
         dict_get r START PNone \<noteq> PNone"
  proof
    fix s assume "s \<in> set shifts"
    then obtain r where r: "r \<in> set ?sel" "s = project ?fs r"
      unfolding sh by auto
    from r(1) sub have "r \<in> set (tables e SHIFT_OBJECT)" "matches ?q r"
      by auto
    with r(2) show "\<exists>r\<in>set (tables e SHIFT_OBJECT).
         s = project ?fs r \<and> map_of r JOB_REF = Some (PStr job_id) \<and>
         dict_get r START PNone \<noteq> PNone"
      using matches_shifts_query by blast
  qed
  have nonnull: "\<forall>s\<in>set shifts. dict_get s START PNone \<noteq> PNone"
  proof
    fix s assume "s \<in> set shifts"
    with stored obtain r where "s = project ?fs r" "dict_get r START PNone \<noteq> PNone"
      by blast
    then show "dict_get s START PNone \<noteq> PNone"
      by (simp add: dict_get_project [OF START_selected])
  qed
  have "order_by_desc ?q = Some START"
    by (simp add: shifts_query_def)
  then have "sorted_wrt (\<lambda>a b. order_key e (dict_get b START PNone)
                     \<le> order_key e (dict_get a START PNone))
               (ordered (order_key e) ?q (filter (matches ?q) (tables e SHIFT_OBJECT)))"
    by (rule ordered_desc)
  then have "sorted_wrt (\<lambda>a b. order_key e (dict_get b START PNone)
                     \<le> order_key e (dict_get a START PNone)) ?sel"
    by (rule sorted_wrt_take)
  then have desc: "sorted_wrt (\<lambda>a b. order_key e (dict_get b START PNone)
                     \<le> order_key e (dict_get a START PNone)) shifts"
    by (simp add: sh sorted_wrt_map dict_get_project [OF START_selected])
  from len nonnull stored desc
  show "length shifts \<le> 3 \<and>
     (\<forall>s\<in>set shifts. dict_get s START PNone \<noteq> PNone) \<and>
     (\<forall>s\<in>set shifts. \<exists>r\<in>set (tables e SHIFT_OBJECT).
         s = project ?fs r \<and>
         map_of r JOB_REF = Some (PStr job_id) \<and>
         dict_get r START PNone \<noteq> PNone) \<and>
     sorted_wrt (\<lambda>a b. order_key e (dict_get b START PNone)
                     \<le> order_key e (dict_get a START PNone)) shifts"
    by blast
qed


theorem shifts_query_result_witness:
  "query sample_env (shifts_query ''j1'') =
     Inr (map (project (select_fields (shifts_query ''j1'')))
       [sample_shift ''s4'' ''j1'' (PStr ''2024-05-01T09:00:00.000+0000'') (PInt 0) (PInt 0),
        sample_shift ''s5'' ''j1'' (PStr ''2024-04-01T09:00:00.000+0000'') PNone PNone,
        sample_shift ''s1'' ''j1'' (PStr ''2024-03-01T09:00:00.000+0000'') (PInt 10) (PInt 3)]) \<and>
   length (map (project (select_fields (shifts_query ''j1'')))
       [sample_shift ''s4'' ''j1'' (PStr ''2024-05-01T09:00:00.000+0000'') (PInt 0) (PInt 0),
        sample_shift ''s5'' ''j1'' (PStr ''2024-04-01T09:00:00.000+0000'') PNone PNone,
        sample_shift ''s1'' ''j1'' (PStr ''2024-03-01T09:00:00.000+0000'') (PInt 10) (PInt 3)]) \<le> 3 \<and>
   sorted_wrt (\<lambda>a b. order_key sample_env (dict_get b START PNone)
                     \<le> order_key sample_env (dict_get a START PNone))
     (map (project (select_fields (shifts_query ''j1'')))
       [sample_shift ''s4'' ''j1'' (PStr ''2024-05-01T09:00:00.000+0000'') (PInt 0) (PInt 0),
        sample_shift ''s5'' ''j1'' (PStr ''2024-04-01T09:00:00.000+0000'') PNone PNone,
        sample_shift ''s1'' ''j1'' (PStr ''2024-03-01T09:00:00.000+0000'') (PInt 10) (PInt 3)])"
proof -
  have a: "query sample_env (shifts_query ''j1'') =
     Inr (map (project (select_fields (shifts_query ''j1'')))
       [sample_shift ''s4'' ''j1'' (PStr ''2024-05-01T09:00:00.000+0000'') (PInt 0) (PInt 0),
        sample_shift ''s5'' ''j1'' (PStr ''2024-04-01T09:00:00.000+0000'') PNone PNone,
        sample_shift ''s1'' ''j1'' (PStr ''2024-03-01T09:00:00.000+0000'') (PInt 10) (PInt 3)])"
    by code_simp
  from a shifts_query_result [of sample_env "''j1''"]
  show ?thesis by blast
qed

text \<open>
  Claim C7, as amended. The job query has the limit 5, so it returns at most 5 records,
  and it projects exactly 7 distinct fields: each returned record has these 7 keys.
\<close>

theorem jobs_query_shape:
  "limit jobs_query = 5 \<and>
   length (select_fields jobs_query) = 7 \<and>
   distinct (select_fields jobs_query) \<and>
   (query e jobs_query = Inr jobs \<longrightarrow>
      length jobs \<le> 5 \<and> (\<forall>j\<in>set jobs. map fst j = select_fields jobs_query))"
proof (intro conjI impI)
  show "limit jobs_query = 5"
    by (simp add: jobs_query_def)
  show "length (select_fields jobs_query) = 7"
    by (simp add: jobs_query_fields)
  show "distinct (select_fields jobs_query)"
    by (simp add: jobs_query_fields)
next
  assume "query e jobs_query = Inr jobs"
  then have j: "jobs = records e jobs_query"
    by (simp add: query_def split: option.splits)
  have l: "limit jobs_query = 5"
    by (simp add: jobs_query_def)
  show "length jobs \<le> 5"
    unfolding j records_def l by simp
  show "\<forall>j\<in>set jobs. map fst j = select_fields jobs_query"
    unfolding j records_def using keys_project by auto
qed

theorem jobs_query_shape_witness:
  "query sample_env jobs_query = Inr sample_jobs \<and>
   length sample_jobs \<le> 5 \<and>
   limit jobs_query = 5 \<and>
   length (select_fields jobs_query) = 7"
proof -
  have a: "query sample_env jobs_query = Inr sample_jobs"
    by code_simp
  from a jobs_query_shape [of sample_env sample_jobs]
  show ?thesis by blast
qed

theorem jobs_query_seven_fields_counterexample:
  "select_fields jobs_query =
     [''Id'', ''Name'', ''GW_Volunteers__Description__c'',
      ''GW_Volunteers__Location__c'', ''GW_Volunteers__Campaign__c'',
      ''GW_Volunteers__Skills_Needed__c'', ''GW_Volunteers__Display_on_Website__c''] \<and>
   length (select_fields jobs_query) = 7 \<and>
   length (select_fields jobs_query) \<noteq> 6"
  by (simp add: jobs_query_def)

end
